theory Spec2Isabelle
  imports Main "HOL-Library.Word" "HOL-Library.Multiset"
begin

section \<open>Data model of the firewall analytics proof of concept\<close>

text \<open>
  The Go sources are \<^verbatim>\<open>poc/graphql_client.go\<close> (the GraphQL client) and the
  \<^verbatim>\<open>main\<close> function of the proof of concept. Go's \<^verbatim>\<open>int64\<close> is a 64-bit word
  whose addition wraps and whose comparison is signed.
\<close>

type_synonym int64 = "64 word"

text \<open>
  The element type of \<^verbatim>\<open>FirewallEventsAdaptiveGroups\<close>, the zone entry and
  \<^verbatim>\<open>FirewallEventsResponse\<close> (its \<^verbatim>\<open>Viewer.Zones\<close> slice).
\<close>

record Dimensions =
  Action :: string
  Source :: string
  ClientCountryName :: string

record Group =
  Count :: int64
  Dimensions :: Dimensions

record Zone =
  FirewallEventsAdaptiveGroups :: "Group list"

record FirewallEventsResponse =
  Viewer_Zones :: "Zone list"

section \<open>The GraphQL client\<close>

text \<open>
  A \<^verbatim>\<open>time.Time\<close> is an instant, counted here in nanoseconds.
  \<^verbatim>\<open>Format(time.RFC3339)\<close> writes an instant without its fraction of a second, so
  the string it returns is represented by the whole second that it denotes.
\<close>

type_synonym Time = int

type_synonym bytes = string

definition Hour :: int where
  "Hour = 3600 * 1000000000"

definition Format_RFC3339 :: "Time \<Rightarrow> int" where
  "Format_RFC3339 t = t div 1000000000"

text \<open>
  The values of \<^verbatim>\<open>map[string]interface{}\<close>: the strings that
  \<^verbatim>\<open>GetFirewallEvents\<close> stores (an RFC3339 string as the second it denotes), and
  any value \<^verbatim>\<open>json.Marshal\<close> rejects, such as a channel or a function.
\<close>

datatype gql_value = VString string | VTime int | VUnsupported

type_synonym variables = "(string \<times> gql_value) list"

record GraphQLRequest =
  Query_text :: string
  Variables :: variables

record GraphQLError =
  Message :: string
  Path :: "string list"

record GraphQLResponse =
  Data :: bytes
  Errors :: "GraphQLError list"

record GraphQLClient =
  apiToken :: string

definition NewGraphQLClient :: "string \<Rightarrow> GraphQLClient" where
  "NewGraphQLClient token = \<lparr>apiToken = token\<rparr>"

text \<open>
  What \<^verbatim>\<open>Query\<close> hands to the client: the two headers and the marshalled request,
  kept as the request itself.
\<close>

record http_request =
  Authorization :: string
  Content_Type :: string
  Body :: GraphQLRequest

text \<open>
  The network is the one thing \<^verbatim>\<open>Query\<close> does not control. \<open>script n\<close> is what
  the \<open>n\<close>-th call of \<^verbatim>\<open>httpClient.Do\<close> returns: an error, or the response the
  call ends with, a status code and a body that \<^verbatim>\<open>io.ReadAll\<close> reads or fails to
  read. The client of \<^verbatim>\<open>NewGraphQLClient\<close> has no \<^verbatim>\<open>CheckRedirect\<close>, so inside one
  call it follows redirects by itself; what it returns is the last response, or an
  error after ten redirects. \<open>sent\<close> logs the requests handed to \<^verbatim>\<open>Do\<close>, one per
  call: \<open>length (sent net)\<close> is the number of calls of the client, not the number
  of exchanges on the wire.
\<close>

datatype read_result = ReadAll_error | ReadAll_ok bytes

datatype http_outcome = Do_error | Do_response int read_result

record network =
  script :: "nat \<Rightarrow> http_outcome"
  sent :: "http_request list"

definition Do :: "http_request \<Rightarrow> network \<Rightarrow> http_outcome \<times> network" where
  "Do req net = (script net (length (sent net)), net\<lparr>sent := sent net @ [req]\<rparr>)"

text \<open>
  \<^verbatim>\<open>encoding/json\<close> is outside the repository: how it decodes the bytes of a body
  is a parameter. \<^verbatim>\<open>json.Marshal\<close> of a request fails exactly on a variable it
  cannot encode. Where it succeeds the body is kept as the request it encodes; the
  bytes themselves, in which invalid UTF-8 is replaced, are not modelled.
\<close>

record codec =
  Unmarshal_GraphQLResponse :: "bytes \<Rightarrow> GraphQLResponse option"
  Unmarshal_FirewallEventsResponse :: "bytes \<Rightarrow> FirewallEventsResponse option"
  MarshalIndent_events :: "Group list \<Rightarrow> bytes option"

definition json_Marshal :: "GraphQLRequest \<Rightarrow> GraphQLRequest option" where
  "json_Marshal req =
     (if VUnsupported \<in> snd ` set (Variables req) then None else Some req)"

text \<open>
  \<^verbatim>\<open>http.NewRequestWithContext\<close> with the constant method and endpoint fails only
  on a nil context.
\<close>

datatype Context = Nil_context | Background

datatype error =
    Marshal_request
  | Create_request
  | Execute_request
  | Read_response
  | Unexpected_status_code int bytes
  | Decode_response
  | Graphql_errors "GraphQLError list"
  | Unmarshal_firewall_events

text \<open>
  \<^verbatim>\<open>Query\<close> returns \<^verbatim>\<open>(nil, err)\<close> or \<^verbatim>\<open>(&result, nil)\<close>: a sum, whose
  left side carries no response. The flag \<^verbatim>\<open>debug\<close> only prints.
\<close>

definition Query ::
  "codec \<Rightarrow> GraphQLClient \<Rightarrow> Context \<Rightarrow> string \<Rightarrow> variables \<Rightarrow> bool \<Rightarrow> network
     \<Rightarrow> (error + GraphQLResponse) \<times> network" where
  "Query js c ctx query vars debug net =
     (let req = \<lparr>Query_text = query, Variables = vars\<rparr> in
      case json_Marshal req of
        None \<Rightarrow> (Inl Marshal_request, net)
      | Some body \<Rightarrow>
          if ctx = Nil_context then (Inl Create_request, net)
          else
            let httpReq = \<lparr>Authorization = ''Bearer '' @ apiToken c,
                           Content_Type = ''application/json'', Body = body\<rparr>;
                (resp, net') = Do httpReq net
            in case resp of
                 Do_error \<Rightarrow> (Inl Execute_request, net')
               | Do_response StatusCode read \<Rightarrow>
                   (case read of
                      ReadAll_error \<Rightarrow> (Inl Read_response, net')
                    | ReadAll_ok bodyBytes \<Rightarrow>
                        if StatusCode \<noteq> 200
                        then (Inl (Unexpected_status_code StatusCode bodyBytes), net')
                        else
                          (case Unmarshal_GraphQLResponse js bodyBytes of
                             None \<Rightarrow> (Inl Decode_response, net')
                           | Some result \<Rightarrow>
                               if length (Errors result) > 0
                               then (Inl (Graphql_errors (Errors result)), net')
                               else (Inr result, net'))))"

text \<open>The query text of \<^verbatim>\<open>GetFirewallEvents\<close>, its white space collapsed.\<close>

definition firewall_events_query :: string where
  "firewall_events_query =
     ''query FirewallEventsByAction($zoneTag: String!, $since: Time!, $until: Time!) { '' @
     ''viewer { zones(filter: { zoneTag: $zoneTag }) { firewallEventsAdaptiveGroups( '' @
     ''filter: { datetime_geq: $since, datetime_leq: $until }, '' @
     ''limit: 100, orderBy: [count_DESC] ) { '' @
     ''count dimensions { action source clientCountryName } } } } }''"

definition firewall_events_vars :: "string \<Rightarrow> Time \<Rightarrow> Time \<Rightarrow> variables" where
  "firewall_events_vars zoneID since until =
     [(''zoneTag'', VString zoneID),
      (''since'', VTime (Format_RFC3339 since)),
      (''until'', VTime (Format_RFC3339 until))]"

definition GetFirewallEvents ::
  "codec \<Rightarrow> GraphQLClient \<Rightarrow> Context \<Rightarrow> string \<Rightarrow> Time \<Rightarrow> Time \<Rightarrow> bool \<Rightarrow> network
     \<Rightarrow> (error + FirewallEventsResponse) \<times> network" where
  "GetFirewallEvents js c ctx zoneID since until debug net =
     (let vars = firewall_events_vars zoneID since until;
          (r, net') = Query js c ctx firewall_events_query vars debug net
      in case r of
           Inl err \<Rightarrow> (Inl err, net')
         | Inr resp \<Rightarrow>
             (case Unmarshal_FirewallEventsResponse js (Data resp) of
                None \<Rightarrow> (Inl Unmarshal_firewall_events, net')
              | Some result \<Rightarrow> (Inr result, net')))"


section \<open>The summaries computed by main\<close>

text \<open>
  A Go \<^verbatim>\<open>map[string]int64\<close> is a partial map. Reading a missing key gives the
  zero value, so \<^verbatim>\<open>m[k] += v\<close> stores \<^verbatim>\<open>0 + v\<close> for a new key.
\<close>

type_synonym counts = "string \<rightharpoonup> int64"

definition index_or_zero :: "counts \<Rightarrow> string \<Rightarrow> int64" where
  "index_or_zero m k = (case m k of None \<Rightarrow> 0 | Some c \<Rightarrow> c)"

definition add_assign :: "counts \<Rightarrow> string \<Rightarrow> int64 \<Rightarrow> counts" where
  "add_assign m k v = m(k \<mapsto> index_or_zero m k + v)"

text \<open>
  The three summary loops of \<^verbatim>\<open>main\<close> have one shape,
  \<^verbatim>\<open>for _, event := range events { m[key(event)] += event.Count }\<close>,
  and differ in the dimension that is the key.
\<close>

fun count_loop :: "(Group \<Rightarrow> string) \<Rightarrow> Group list \<Rightarrow> counts \<Rightarrow> counts" where
  "count_loop key [] m = m"
| "count_loop key (event # events) m =
     count_loop key events (add_assign m (key event) (Count event))"

definition actionCounts :: "Group list \<Rightarrow> counts" where
  "actionCounts events = count_loop (\<lambda>e. Action (Dimensions e)) events Map.empty"

definition sourceCounts :: "Group list \<Rightarrow> counts" where
  "sourceCounts events = count_loop (\<lambda>e. Source (Dimensions e)) events Map.empty"

definition countryCounts :: "Group list \<Rightarrow> counts" where
  "countryCounts events = count_loop (\<lambda>e. ClientCountryName (Dimensions e)) events Map.empty"

text \<open>
  \<^verbatim>\<open>for k, v := range m\<close> visits every key of the map once, in an order Go leaves
  unspecified. The order is a parameter \<open>order\<close>: a run of the program is one choice
  of an enumeration of the keys (\<open>range_order\<close>), and \<open>range_map\<close> gives the pairs
  the loop body sees.
\<close>

definition range_order :: "counts \<Rightarrow> string list \<Rightarrow> bool" where
  "range_order m order \<longleftrightarrow> distinct order \<and> set order = dom m"

definition range_map :: "counts \<Rightarrow> string list \<Rightarrow> (string \<times> int64) list" where
  "range_map m order = List.map_filter (\<lambda>k. map_option (Pair k) (m k)) order"

text \<open>
  The slice \<^verbatim>\<open>countries\<close> holds one \<^verbatim>\<open>countryCount\<close> per key of
  \<^verbatim>\<open>countryCounts\<close>, appended in range order.
\<close>

record countryCount =
  country :: string
  count' :: int64

definition append_countries :: "counts \<Rightarrow> string list \<Rightarrow> countryCount list" where
  "append_countries m order =
     map (\<lambda>(k, v). \<lparr>country = k, count' = v\<rparr>) (range_map m order)"

text \<open>
  The sort of \<^verbatim>\<open>main\<close>, which its comment calls a bubble sort:
  \<^verbatim>\<open>for i := 0; i < len(countries); i++ {
    for j := i + 1; j < len(countries); j++ {
      if countries[j].count > countries[i].count { swap i, j } } }\<close>
  The comparison is the signed one of \<^verbatim>\<open>int64\<close> and looks at the count only.
\<close>

function inner_loop :: "nat \<Rightarrow> nat \<Rightarrow> countryCount list \<Rightarrow> countryCount list" where
  "inner_loop i j countries =
     (if j < length countries
      then inner_loop i (Suc j)
             (if sint (count' (countries ! i)) < sint (count' (countries ! j))
              then countries[i := countries ! j, j := countries ! i]
              else countries)
      else countries)"
  by pat_completeness auto
termination
  by (relation "measure (\<lambda>(i, j, countries). length countries - j)") auto

declare inner_loop.simps [simp del]

function outer_loop :: "nat \<Rightarrow> countryCount list \<Rightarrow> countryCount list" where
  "outer_loop i countries =
     (if i < length countries
      then outer_loop (Suc i) (inner_loop i (Suc i) countries)
      else countries)"
  by pat_completeness auto
termination
proof (relation "measure (\<lambda>(i, countries). length countries - i)")
  show "wf (measure (\<lambda>(i, countries :: countryCount list). length countries - i))"
    by simp
next
  fix i :: nat and countries :: "countryCount list"
  assume less: "i < length countries"
  have keep: "length (inner_loop a b cs) = length cs" for a b cs
    by (induction a b cs rule: inner_loop.induct) (subst inner_loop.simps, simp)
  from less show "((Suc i, inner_loop i (Suc i) countries), (i, countries))
      \<in> measure (\<lambda>(i, countries). length countries - i)"
    by (simp add: keep)
qed

declare outer_loop.simps [simp del]

definition sort_countries :: "countryCount list \<Rightarrow> countryCount list" where
  "sort_countries countries = outer_loop 0 countries"

text \<open>
  \<^verbatim>\<open>max := len(countries); if max > 10 { max = 10 }\<close>, then the first \<^verbatim>\<open>max\<close>
  entries are printed.
\<close>

definition top_countries :: "countryCount list \<Rightarrow> countryCount list" where
  "top_countries countries =
     (let sorted_countries = sort_countries countries;
          max = (if length sorted_countries > 10 then 10 else length sorted_countries)
      in take max sorted_countries)"

section \<open>The program\<close>

text \<open>
  What a run of \<^verbatim>\<open>main\<close> ends with. \<^verbatim>\<open>os.Exit(1)\<close> follows a message about a
  missing variable, a failed fetch or a failed \<^verbatim>\<open>json.MarshalIndent\<close>; the line
  \<^verbatim>\<open>No zones found in response\<close> is followed by a plain \<^verbatim>\<open>return\<close>; otherwise
  the run prints the number of groups, their JSON text, the two summaries, the top
  countries and the closing lines. The two summary maps are printed in range order,
  which the outcome leaves open by holding the maps.
\<close>

datatype exit_reason = Missing_token | Missing_zone_id | Fetch_failed error | Format_failed

record summary =
  found :: nat
  prettyJSON :: bytes
  by_action :: counts
  by_source :: counts
  top :: "countryCount list"

datatype outcome = Exit_1 exit_reason | No_zones_found | Completed summary

fun exit_code :: "outcome \<Rightarrow> nat" where
  "exit_code (Exit_1 _) = 1"
| "exit_code No_zones_found = 0"
| "exit_code (Completed _) = 0"

text \<open>
  The part of \<^verbatim>\<open>main\<close> from \<^verbatim>\<open>// Print results\<close> on, which works on the
  decoded response. \<open>order\<close> is the order in which the run ranges over
  \<^verbatim>\<open>countryCounts\<close>.
\<close>

definition print_results :: "codec \<Rightarrow> string list \<Rightarrow> FirewallEventsResponse \<Rightarrow> outcome" where
  "print_results js order result =
     (if length (Viewer_Zones result) = 0 then No_zones_found
      else
        let zone = Viewer_Zones result ! 0;
            events = FirewallEventsAdaptiveGroups zone
        in case MarshalIndent_events js events of
             None \<Rightarrow> Exit_1 Format_failed
           | Some text \<Rightarrow>
               Completed
                 \<lparr>found = length events,
                  prettyJSON = text,
                  by_action = actionCounts events,
                  by_source = sourceCounts events,
                  top = top_countries (append_countries (countryCounts events) order)\<rparr>)"

text \<open>
  The environment of a run: the three variables read by \<^verbatim>\<open>os.Getenv\<close>, the clock,
  the JSON codec, the network and the range order. The sources hold two versions of
  \<^verbatim>\<open>main\<close>; the one modelled is the one that matches the client, with the flag
  \<^verbatim>\<open>debug\<close> and a window of ten hours. The other has no flag and a window of one
  hour, and the same code from \<^verbatim>\<open>// Print results\<close> on.
\<close>

record environment =
  CF_API_TOKEN :: string
  CF_ZONE_ID :: string
  DEBUG :: string
  Now :: Time
  json :: codec
  internet :: network
  range_countries :: "string list"

definition main :: "environment \<Rightarrow> outcome" where
  "main env =
     (let apiToken = CF_API_TOKEN env;
          zoneID = CF_ZONE_ID env;
          debug = (DEBUG env = ''true'')
      in if apiToken = [] then Exit_1 Missing_token
         else if zoneID = [] then Exit_1 Missing_zone_id
         else
           let client = NewGraphQLClient apiToken;
               until = Now env;
               since = until + (- 10) * Hour;
               (r, net') = GetFirewallEvents (json env) client Background zoneID since until
                             debug (internet env)
           in case r of
                Inl err \<Rightarrow> Exit_1 (Fetch_failed err)
              | Inr result \<Rightarrow> print_results (json env) (range_countries env) result)"

section \<open>The time window tracker\<close>








section \<open>The query executor: outcomes and attempts\<close>

text \<open>
  Claim C1. A call of \<open>Query\<close> returns a result exactly when the request could be
  sent (its variables can be marshalled, the context is not nil), the response that
  \<^verbatim>\<open>Do\<close> met has status 200 and a readable body, the body decodes, and the decoded
  \<open>Errors\<close> list is empty; the result is then the decoded response. In every other
  case, a status such as 201 or 204 included, the call returns an error, which
  carries no response.
\<close>

theorem Query_success_iff:
  "(fst (Query js c ctx query vars debug net) = Inr result \<longleftrightarrow>
      VUnsupported \<notin> snd ` set vars \<and> ctx \<noteq> Nil_context \<and>
      (\<exists>bodyBytes.
         script net (length (sent net)) = Do_response 200 (ReadAll_ok bodyBytes) \<and>
         Unmarshal_GraphQLResponse js bodyBytes = Some result \<and> Errors result = [])) \<and>
   (isl (fst (Query js c ctx query vars debug net)) \<longleftrightarrow>
      \<not> (VUnsupported \<notin> snd ` set vars \<and> ctx \<noteq> Nil_context \<and>
         (\<exists>bodyBytes decoded.
            script net (length (sent net)) = Do_response 200 (ReadAll_ok bodyBytes) \<and>
            Unmarshal_GraphQLResponse js bodyBytes = Some decoded \<and> Errors decoded = [])))"
  by (auto simp: Query_def Do_def Let_def json_Marshal_def
      split: option.splits http_outcome.splits read_result.splits)

text \<open>
  Claim C2, as the code has it. \<open>Query\<close> has no retry loop, no backoff and no
  attempt count: it calls the HTTP client at most once, and an error returned by that
  call, a response returned by it with a status other than 200 (429 and 5xx as well
  as 401 and 403) and a non-empty \<open>Errors\<close> list each end the call of \<open>Query\<close>
  with an error at once.
\<close>

theorem Query_single_attempt:
  assumes "Query js c ctx query vars debug net = (r, net')"
  shows "length (sent net') \<le> Suc (length (sent net)) \<and>
     (script net (length (sent net)) = Do_error \<longrightarrow> isl r) \<and>
     (\<forall>StatusCode read.
        script net (length (sent net)) = Do_response StatusCode read \<and> StatusCode \<noteq> 200
          \<longrightarrow> isl r) \<and>
     (\<forall>bodyBytes decoded.
        script net (length (sent net)) = Do_response 200 (ReadAll_ok bodyBytes) \<and>
        Unmarshal_GraphQLResponse js bodyBytes = Some decoded \<and> Errors decoded \<noteq> []
          \<longrightarrow> isl r)"
  using assms
  by (auto simp: Query_def Do_def Let_def json_Marshal_def
      split: option.splits http_outcome.splits read_result.splits if_splits)

text \<open>
  A run on a rate-limited server: status 429, one call of the client, an error
  returned.
\<close>

theorem Query_single_attempt_witness:
  "Query \<lparr>Unmarshal_GraphQLResponse = (\<lambda>b. None),
          Unmarshal_FirewallEventsResponse = (\<lambda>b. None),
          MarshalIndent_events = (\<lambda>e. None)\<rparr>
     \<lparr>apiToken = ''t''\<rparr> Background ''q'' [] False
     \<lparr>script = (\<lambda>n. Do_response 429 (ReadAll_ok ''slow down'')), sent = []\<rparr>
   = (Inl (Unexpected_status_code 429 ''slow down''),
      \<lparr>script = (\<lambda>n. Do_response 429 (ReadAll_ok ''slow down'')),
       sent = [\<lparr>Authorization = ''Bearer t'', Content_Type = ''application/json'',
                Body = \<lparr>Query_text = ''q'', Variables = []\<rparr>\<rparr>]\<rparr>) \<and>
   length [\<lparr>Authorization = ''Bearer t'', Content_Type = ''application/json'',
            Body = \<lparr>Query_text = ''q'', Variables = []\<rparr>\<rparr>]
     \<le> Suc (length ([] :: http_request list)) \<and>
   isl (Inl (Unexpected_status_code 429 ''slow down'') :: error + GraphQLResponse)"
proof -
  let ?js = "\<lparr>Unmarshal_GraphQLResponse = (\<lambda>b. None),
          Unmarshal_FirewallEventsResponse = (\<lambda>b. None),
          MarshalIndent_events = (\<lambda>e. None)\<rparr>"
  let ?net = "\<lparr>script = (\<lambda>n. Do_response 429 (ReadAll_ok ''slow down'')), sent = []\<rparr>"
  have run: "Query ?js \<lparr>apiToken = ''t''\<rparr> Background ''q'' [] False ?net
   = (Inl (Unexpected_status_code 429 ''slow down''),
      \<lparr>script = (\<lambda>n. Do_response 429 (ReadAll_ok ''slow down'')),
       sent = [\<lparr>Authorization = ''Bearer t'', Content_Type = ''application/json'',
                Body = \<lparr>Query_text = ''q'', Variables = []\<rparr>\<rparr>]\<rparr>)"
    by (simp add: Query_def Do_def json_Marshal_def)
  from Query_single_attempt [OF run] run show ?thesis by simp
qed

text \<open>
  Three servers that fail the first call of the client and would answer a second call
  with a clean 200: the first call ends in a transport error, in a response with
  status 429, in a response with status 500. Each time \<open>Query\<close> returns the error
  of the first call, and the log holds the one request of that call: nothing was
  retried.
\<close>

theorem retryable_failures_not_retried:
  "Query \<lparr>Unmarshal_GraphQLResponse =
            (\<lambda>b. if b = ''ok'' then Some \<lparr>Data = ''rows'', Errors = []\<rparr> else None),
          Unmarshal_FirewallEventsResponse = (\<lambda>b. None),
          MarshalIndent_events = (\<lambda>e. None)\<rparr>
     \<lparr>apiToken = ''t''\<rparr> Background ''q'' [] False
     \<lparr>script = (\<lambda>n. if n = 0 then Do_error else Do_response 200 (ReadAll_ok ''ok'')),
      sent = []\<rparr>
   = (Inl Execute_request,
      \<lparr>script = (\<lambda>n. if n = 0 then Do_error else Do_response 200 (ReadAll_ok ''ok'')),
       sent = [\<lparr>Authorization = ''Bearer t'', Content_Type = ''application/json'',
                Body = \<lparr>Query_text = ''q'', Variables = []\<rparr>\<rparr>]\<rparr>) \<and>
   Query \<lparr>Unmarshal_GraphQLResponse =
            (\<lambda>b. if b = ''ok'' then Some \<lparr>Data = ''rows'', Errors = []\<rparr> else None),
          Unmarshal_FirewallEventsResponse = (\<lambda>b. None),
          MarshalIndent_events = (\<lambda>e. None)\<rparr>
     \<lparr>apiToken = ''t''\<rparr> Background ''q'' [] False
     \<lparr>script = (\<lambda>n. if n = 0 then Do_response 429 (ReadAll_ok ''slow'') else Do_response 200 (ReadAll_ok ''ok'')),
      sent = []\<rparr>
   = (Inl (Unexpected_status_code 429 ''slow''),
      \<lparr>script = (\<lambda>n. if n = 0 then Do_response 429 (ReadAll_ok ''slow'') else Do_response 200 (ReadAll_ok ''ok'')),
       sent = [\<lparr>Authorization = ''Bearer t'', Content_Type = ''application/json'',
                Body = \<lparr>Query_text = ''q'', Variables = []\<rparr>\<rparr>]\<rparr>) \<and>
   Query \<lparr>Unmarshal_GraphQLResponse =
            (\<lambda>b. if b = ''ok'' then Some \<lparr>Data = ''rows'', Errors = []\<rparr> else None),
          Unmarshal_FirewallEventsResponse = (\<lambda>b. None),
          MarshalIndent_events = (\<lambda>e. None)\<rparr>
     \<lparr>apiToken = ''t''\<rparr> Background ''q'' [] False
     \<lparr>script = (\<lambda>n. if n = 0 then Do_response 500 (ReadAll_ok ''busy'') else Do_response 200 (ReadAll_ok ''ok'')),
      sent = []\<rparr>
   = (Inl (Unexpected_status_code 500 ''busy''),
      \<lparr>script = (\<lambda>n. if n = 0 then Do_response 500 (ReadAll_ok ''busy'') else Do_response 200 (ReadAll_ok ''ok'')),
       sent = [\<lparr>Authorization = ''Bearer t'', Content_Type = ''application/json'',
                Body = \<lparr>Query_text = ''q'', Variables = []\<rparr>\<rparr>]\<rparr>)"
  by (simp add: Query_def Do_def json_Marshal_def)

section \<open>Aggregation into the summary maps\<close>

lemma index_or_zero_add_assign:
  "index_or_zero (add_assign m k v) k' =
     (if k' = k then index_or_zero m k + v else index_or_zero m k')"
  by (simp add: add_assign_def index_or_zero_def)

lemma dom_add_assign: "dom (add_assign m k v) = insert k (dom m)"
  by (simp add: add_assign_def)

lemma dom_count_loop: "dom (count_loop key events m) = dom m \<union> key ` set events"
  by (induction events arbitrary: m) (auto simp: dom_add_assign)

lemma index_count_loop:
  "index_or_zero (count_loop key events m) k =
     index_or_zero m k + sum_list (map Count (filter (\<lambda>e. key e = k) events))"
  by (induction events arbitrary: m) (auto simp: index_or_zero_add_assign add.assoc)

text \<open>
  The map that a summary loop builds from the empty map: a key is present when some
  event has it, and its value is the \<^verbatim>\<open>int64\<close> sum of the counts of those events.
\<close>

lemma count_loop_lookup:
  "count_loop key events Map.empty k =
     (if k \<in> key ` set events
      then Some (sum_list (map Count (filter (\<lambda>e. key e = k) events)))
      else None)"
proof (cases "k \<in> key ` set events")
  case True
  then have "k \<in> dom (count_loop key events Map.empty)"
    by (simp add: dom_count_loop)
  then obtain c where c: "count_loop key events Map.empty k = Some c"
    by auto
  then have "c = index_or_zero (count_loop key events Map.empty) k"
    by (simp add: index_or_zero_def)
  also have "\<dots> = sum_list (map Count (filter (\<lambda>e. key e = k) events))"
    by (simp add: index_count_loop) (simp add: index_or_zero_def)
  finally show ?thesis using True c by simp
next
  case False
  then have "k \<notin> dom (count_loop key events Map.empty)"
    by (simp add: dom_count_loop)
  with False show ?thesis by auto
qed

lemma sum_list_filter_mset:
  "sum_list (map f (filter P xs)) = sum_mset (image_mset f (filter_mset P (mset xs)))"
  by (induction xs) auto

lemma count_loop_mset:
  assumes "mset xs = mset ys"
  shows "count_loop key xs Map.empty = count_loop key ys Map.empty"
proof
  fix k
  from assms have "set xs = set ys" by (rule mset_eq_setD)
  with assms show "count_loop key xs Map.empty k = count_loop key ys Map.empty k"
    by (simp add: count_loop_lookup sum_list_filter_mset)
qed

lemma range_map_valid:
  "set order \<subseteq> dom m \<Longrightarrow> range_map m order = map (\<lambda>k. (k, the (m k))) order"
  by (induction order) (auto simp: range_map_def)

text \<open>Summing key by key over an enumeration of the keys is summing over the events.\<close>

lemma sum_list_partition:
  fixes f :: "'a \<Rightarrow> 'b::comm_monoid_add"
  assumes "distinct ks" "key ` set xs \<subseteq> set ks"
  shows "(\<Sum>k\<leftarrow>ks. sum_list (map f (filter (\<lambda>e. key e = k) xs))) = sum_list (map f xs)"
  using assms(2)
proof (induction xs)
  case Nil
  then show ?case by simp
next
  case (Cons x xs)
  have "(\<Sum>k\<leftarrow>ks. sum_list (map f (filter (\<lambda>e. key e = k) (x # xs))))
      = (\<Sum>k\<leftarrow>ks. (if key x = k then f x else 0)
           + sum_list (map f (filter (\<lambda>e. key e = k) xs)))"
    by (rule arg_cong [where f = sum_list], rule map_cong) auto
  also have "\<dots> = (\<Sum>k\<leftarrow>ks. (if key x = k then f x else 0))
      + (\<Sum>k\<leftarrow>ks. sum_list (map f (filter (\<lambda>e. key e = k) xs)))"
    by (simp add: sum_list_addf)
  also have "(\<Sum>k\<leftarrow>ks. (if key x = k then f x else 0)) = f x"
    using assms(1) Cons.prems by (simp add: sum_list_distinct_conv_sum_set)
  finally show ?case using Cons by simp
qed

lemma word_of_int_sum_list:
  "(word_of_int (sum_list xs) :: 'a::len word) = sum_list (map word_of_int xs)"
  by (induction xs) simp_all

lemma wrapped_sum:
  "(word_of_int (\<Sum>e\<leftarrow>es. sint (Count e)) :: int64) = sum_list (map Count es)"
  by (simp add: word_of_int_sum_list comp_def)

lemma sint_int64_exact:
  "- (2 ^ 63) \<le> s \<Longrightarrow> s < 2 ^ 63 \<Longrightarrow> sint (word_of_int s :: int64) = s"
  by (simp add: sint_sbintrunc' signed_take_bit_int_eq_self)

lemma sum_list_filter_le:
  fixes f :: "'a \<Rightarrow> int"
  assumes "\<forall>x\<in>set xs. 0 \<le> f x"
  shows "sum_list (map f (filter P xs)) \<le> sum_list (map f xs)"
  using assms by (induction xs) auto

lemma sum_list_filter_nonneg:
  fixes f :: "'a \<Rightarrow> int"
  assumes "\<forall>x\<in>set xs. 0 \<le> f x"
  shows "0 \<le> sum_list (map f (filter P xs))"
  using assms by (induction xs) auto

lemma range_map_count_loop:
  assumes "range_order (count_loop key events Map.empty) order"
  shows "range_map (count_loop key events Map.empty) order
      = map (\<lambda>k. (k, sum_list (map Count (filter (\<lambda>e. key e = k) events)))) order"
proof -
  from assms have "set order = key ` set events"
    by (simp add: range_order_def dom_count_loop)
  then show ?thesis
    by (subst range_map_valid) (auto simp: dom_count_loop count_loop_lookup)
qed

lemma wrapped_sum_list:
  "(word_of_int (\<Sum>x\<leftarrow>xs. sint (f x)) :: int64) = sum_list (map f xs)"
  by (simp add: word_of_int_sum_list comp_def)

text \<open>
  Claim C3, as the code has it. For every list of groups and every projection \<open>key\<close>
  of the dimensions (the action, the source and the country of the three loops among
  them), the counts of the aggregated groups, read off the map in any range order, add
  up to the sum of the counts of the input groups in \<^verbatim>\<open>int64\<close> arithmetic: the two
  integer sums agree modulo \<open>2 ^ 64\<close>. They are equal as integers whenever, for every
  key, the exact sum of the counts of that key lies in the \<^verbatim>\<open>int64\<close> range.
\<close>

theorem conservation_of_total:
  assumes "range_order (count_loop key events Map.empty) order"
  shows "sum_list (map snd (range_map (count_loop key events Map.empty) order))
           = sum_list (map Count events) \<and>
         (\<Sum>p\<leftarrow>range_map (count_loop key events Map.empty) order. sint (snd p)) mod 2 ^ 64
           = (\<Sum>e\<leftarrow>events. sint (Count e)) mod 2 ^ 64 \<and>
         ((\<forall>k\<in>set order.
             - (2 ^ 63) \<le> (\<Sum>e\<leftarrow>filter (\<lambda>e. key e = k) events. sint (Count e)) \<and>
             (\<Sum>e\<leftarrow>filter (\<lambda>e. key e = k) events. sint (Count e)) < 2 ^ 63) \<longrightarrow>
          (\<Sum>p\<leftarrow>range_map (count_loop key events Map.empty) order. sint (snd p))
            = (\<Sum>e\<leftarrow>events. sint (Count e)))"
proof -
  let ?m = "count_loop key events Map.empty"
  let ?S = "\<lambda>k. \<Sum>e\<leftarrow>filter (\<lambda>e. key e = k) events. sint (Count e)"
  from assms have d: "distinct order" and s: "set order = key ` set events"
    by (simp_all add: range_order_def dom_count_loop)
  note rm = range_map_count_loop [OF assms]
  have words: "sum_list (map snd (range_map ?m order)) = sum_list (map Count events)"
    using sum_list_partition [of order key events Count] d s
    by (simp add: rm comp_def)
  have "(word_of_int (\<Sum>p\<leftarrow>range_map ?m order. sint (snd p)) :: int64)
      = word_of_int (\<Sum>e\<leftarrow>events. sint (Count e))"
    by (simp only: wrapped_sum_list words)
  then have modulo: "(\<Sum>p\<leftarrow>range_map ?m order. sint (snd p)) mod 2 ^ 64
      = (\<Sum>e\<leftarrow>events. sint (Count e)) mod 2 ^ 64"
    by (simp add: word_of_int_eq_iff take_bit_eq_mod)
  have ints: "(\<Sum>p\<leftarrow>range_map ?m order. sint (snd p)) = (\<Sum>e\<leftarrow>events. sint (Count e))"
    if fits: "\<forall>k\<in>set order. - (2 ^ 63) \<le> ?S k \<and> ?S k < 2 ^ 63"
  proof -
    have ex: "sint (sum_list (map Count (filter (\<lambda>e. key e = k) events))) = ?S k"
      if "k \<in> set order" for k
    proof -
      from that fits have "sint (word_of_int (?S k) :: int64) = ?S k"
        by (intro sint_int64_exact) auto
      then show ?thesis by (simp add: wrapped_sum)
    qed
    have "(\<Sum>p\<leftarrow>range_map ?m order. sint (snd p))
        = (\<Sum>k\<leftarrow>order. sint (sum_list (map Count (filter (\<lambda>e. key e = k) events))))"
      by (simp add: rm comp_def)
    also have "\<dots> = (\<Sum>k\<leftarrow>order. ?S k)"
      by (rule arg_cong [where f = sum_list], rule map_cong) (simp_all add: ex)
    also have "\<dots> = (\<Sum>e\<leftarrow>events. sint (Count e))"
      using sum_list_partition [of order key events "\<lambda>e. sint (Count e)"] d s by simp
    finally show ?thesis .
  qed
  from words modulo ints show ?thesis by blast
qed

text \<open>
  Two actions with the count \<open>2 ^ 63 - 1\<close> each, read in the order \<open>block\<close>,
  \<open>allow\<close>: each key fits, and the aggregated counts add up to the integer sum of
  the input counts, \<open>2 ^ 64 - 2\<close>.
\<close>

theorem conservation_of_total_witness:
  "range_order
     (count_loop (\<lambda>e. Action (Dimensions e))
        [\<lparr>Count = 9223372036854775807,
          Dimensions = \<lparr>Action = ''block'', Source = ''waf'', ClientCountryName = ''US''\<rparr>\<rparr>,
         \<lparr>Count = 9223372036854775807,
          Dimensions = \<lparr>Action = ''allow'', Source = ''waf'', ClientCountryName = ''US''\<rparr>\<rparr>]
        Map.empty)
     [''block'', ''allow''] \<and>
   range_map
     (count_loop (\<lambda>e. Action (Dimensions e))
        [\<lparr>Count = 9223372036854775807,
          Dimensions = \<lparr>Action = ''block'', Source = ''waf'', ClientCountryName = ''US''\<rparr>\<rparr>,
         \<lparr>Count = 9223372036854775807,
          Dimensions = \<lparr>Action = ''allow'', Source = ''waf'', ClientCountryName = ''US''\<rparr>\<rparr>]
        Map.empty)
     [''block'', ''allow'']
     = [(''block'', 9223372036854775807), (''allow'', 9223372036854775807)] \<and>
   (\<Sum>p\<leftarrow>[(''block'', 9223372036854775807 :: int64), (''allow'', 9223372036854775807)].
      sint (snd p)) = 18446744073709551614"
proof -
  let ?events = "[\<lparr>Count = 9223372036854775807 :: int64,
          Dimensions = \<lparr>Action = ''block'', Source = ''waf'', ClientCountryName = ''US''\<rparr>\<rparr>,
         \<lparr>Count = 9223372036854775807,
          Dimensions = \<lparr>Action = ''allow'', Source = ''waf'', ClientCountryName = ''US''\<rparr>\<rparr>]"
  let ?m = "count_loop (\<lambda>e. Action (Dimensions e)) ?events Map.empty"
  have ord: "range_order ?m [''block'', ''allow'']"
    by (auto simp: range_order_def add_assign_def)
  have rm: "range_map ?m [''block'', ''allow'']
      = [(''block'', 9223372036854775807), (''allow'', 9223372036854775807)]"
    by (simp add: range_map_def add_assign_def index_or_zero_def)
  have fits: "\<forall>k\<in>set [''block'', ''allow''].
      - (2 ^ 63) \<le> (\<Sum>e\<leftarrow>filter (\<lambda>e. Action (Dimensions e) = k) ?events. sint (Count e)) \<and>
      (\<Sum>e\<leftarrow>filter (\<lambda>e. Action (Dimensions e) = k) ?events. sint (Count e)) < 2 ^ 63"
    by simp
  from conservation_of_total [OF ord] fits
  have "(\<Sum>p\<leftarrow>range_map ?m [''block'', ''allow'']. sint (snd p)) = (\<Sum>e\<leftarrow>?events. sint (Count e))"
    by blast
  then have "(\<Sum>p\<leftarrow>[(''block'', 9223372036854775807 :: int64), (''allow'', 9223372036854775807)].
      sint (snd p)) = (\<Sum>e\<leftarrow>?events. sint (Count e))"
    unfolding rm .
  with ord rm show ?thesis by simp
qed

text \<open>
  Two groups of the action \<open>block\<close> with the count \<open>2 ^ 62\<close> each and one group of
  \<open>allow\<close> with the count 1: the counts of the input add up to \<open>2 ^ 63 + 1\<close>, the
  aggregated counts, \<open>- 2 ^ 63\<close> for \<open>block\<close> and 1 for \<open>allow\<close>, to
  \<open>1 - 2 ^ 63\<close>.
\<close>

theorem total_not_conserved_on_overflow:
  "range_order
     (actionCounts
        [\<lparr>Count = 4611686018427387904,
          Dimensions = \<lparr>Action = ''block'', Source = ''waf'', ClientCountryName = ''US''\<rparr>\<rparr>,
         \<lparr>Count = 4611686018427387904,
          Dimensions = \<lparr>Action = ''block'', Source = ''waf'', ClientCountryName = ''DE''\<rparr>\<rparr>,
         \<lparr>Count = 1,
          Dimensions = \<lparr>Action = ''allow'', Source = ''waf'', ClientCountryName = ''US''\<rparr>\<rparr>])
     [''block'', ''allow''] \<and>
   (\<Sum>p\<leftarrow>range_map
      (actionCounts
        [\<lparr>Count = 4611686018427387904,
          Dimensions = \<lparr>Action = ''block'', Source = ''waf'', ClientCountryName = ''US''\<rparr>\<rparr>,
         \<lparr>Count = 4611686018427387904,
          Dimensions = \<lparr>Action = ''block'', Source = ''waf'', ClientCountryName = ''DE''\<rparr>\<rparr>,
         \<lparr>Count = 1,
          Dimensions = \<lparr>Action = ''allow'', Source = ''waf'', ClientCountryName = ''US''\<rparr>\<rparr>])
      [''block'', ''allow'']. sint (snd p)) = - 9223372036854775807 \<and>
   (\<Sum>e\<leftarrow>[\<lparr>Count = 4611686018427387904 :: int64,
          Dimensions = \<lparr>Action = ''block'', Source = ''waf'', ClientCountryName = ''US''\<rparr>\<rparr>,
         \<lparr>Count = 4611686018427387904,
          Dimensions = \<lparr>Action = ''block'', Source = ''waf'', ClientCountryName = ''DE''\<rparr>\<rparr>,
         \<lparr>Count = 1,
          Dimensions = \<lparr>Action = ''allow'', Source = ''waf'', ClientCountryName = ''US''\<rparr>\<rparr>].
      sint (Count e)) = 9223372036854775809"
  by (auto simp: range_order_def actionCounts_def range_map_def add_assign_def index_or_zero_def)

text \<open>
  Claim C8. Aggregation under a fixed projection gives the same map for a list of
  groups and for every permutation of it.
\<close>

theorem aggregation_order_independent:
  assumes "mset events = mset events'"
  shows "count_loop key events Map.empty = count_loop key events' Map.empty"
  using assms by (rule count_loop_mset)

text \<open>The example of the specification and a rotation of it.\<close>

theorem aggregation_order_independent_witness:
  "mset [\<lparr>Count = 5, Dimensions = \<lparr>Action = ''block'', Source = ''waf'', ClientCountryName = ''US''\<rparr>\<rparr>,
         \<lparr>Count = 3, Dimensions = \<lparr>Action = ''block'', Source = ''waf'', ClientCountryName = ''DE''\<rparr>\<rparr>,
         \<lparr>Count = 2 :: int64, Dimensions = \<lparr>Action = ''allow'', Source = ''waf'', ClientCountryName = ''US''\<rparr>\<rparr>]
   = mset [\<lparr>Count = 2, Dimensions = \<lparr>Action = ''allow'', Source = ''waf'', ClientCountryName = ''US''\<rparr>\<rparr>,
         \<lparr>Count = 5, Dimensions = \<lparr>Action = ''block'', Source = ''waf'', ClientCountryName = ''US''\<rparr>\<rparr>,
         \<lparr>Count = 3, Dimensions = \<lparr>Action = ''block'', Source = ''waf'', ClientCountryName = ''DE''\<rparr>\<rparr>] \<and>
   count_loop (\<lambda>e. Action (Dimensions e))
     [\<lparr>Count = 5, Dimensions = \<lparr>Action = ''block'', Source = ''waf'', ClientCountryName = ''US''\<rparr>\<rparr>,
      \<lparr>Count = 3, Dimensions = \<lparr>Action = ''block'', Source = ''waf'', ClientCountryName = ''DE''\<rparr>\<rparr>,
      \<lparr>Count = 2, Dimensions = \<lparr>Action = ''allow'', Source = ''waf'', ClientCountryName = ''US''\<rparr>\<rparr>]
     Map.empty
   = count_loop (\<lambda>e. Action (Dimensions e))
     [\<lparr>Count = 2, Dimensions = \<lparr>Action = ''allow'', Source = ''waf'', ClientCountryName = ''US''\<rparr>\<rparr>,
      \<lparr>Count = 5, Dimensions = \<lparr>Action = ''block'', Source = ''waf'', ClientCountryName = ''US''\<rparr>\<rparr>,
      \<lparr>Count = 3, Dimensions = \<lparr>Action = ''block'', Source = ''waf'', ClientCountryName = ''DE''\<rparr>\<rparr>]
     Map.empty"
proof -
  have perm: "mset [\<lparr>Count = 5, Dimensions = \<lparr>Action = ''block'', Source = ''waf'', ClientCountryName = ''US''\<rparr>\<rparr>,
         \<lparr>Count = 3, Dimensions = \<lparr>Action = ''block'', Source = ''waf'', ClientCountryName = ''DE''\<rparr>\<rparr>,
         \<lparr>Count = 2 :: int64, Dimensions = \<lparr>Action = ''allow'', Source = ''waf'', ClientCountryName = ''US''\<rparr>\<rparr>]
   = mset [\<lparr>Count = 2, Dimensions = \<lparr>Action = ''allow'', Source = ''waf'', ClientCountryName = ''US''\<rparr>\<rparr>,
         \<lparr>Count = 5, Dimensions = \<lparr>Action = ''block'', Source = ''waf'', ClientCountryName = ''US''\<rparr>\<rparr>,
         \<lparr>Count = 3, Dimensions = \<lparr>Action = ''block'', Source = ''waf'', ClientCountryName = ''DE''\<rparr>\<rparr>]"
    by simp
  from perm aggregation_order_independent [OF perm, of "\<lambda>e. Action (Dimensions e)"]
  show ?thesis by blast
qed

text \<open>
  Claim C5, as the code has it. The summary loops add with the wrapping \<^verbatim>\<open>+=\<close>
  of \<^verbatim>\<open>int64\<close> and have no failure result: for every input, every key that
  occurs gets the sum of its counts reduced modulo \<open>2 ^ 64\<close> into the \<^verbatim>\<open>int64\<close>
  range, and that is the exact sum whenever the exact sum lies in the range.
\<close>

theorem aggregation_wraps:
  "count_loop key events Map.empty k =
     (if k \<in> key ` set events
      then Some (word_of_int (\<Sum>e\<leftarrow>filter (\<lambda>e. key e = k) events. sint (Count e)))
      else None) \<and>
   (\<forall>c. count_loop key events Map.empty k = Some c \<and>
        - (2 ^ 63) \<le> (\<Sum>e\<leftarrow>filter (\<lambda>e. key e = k) events. sint (Count e)) \<and>
        (\<Sum>e\<leftarrow>filter (\<lambda>e. key e = k) events. sint (Count e)) < 2 ^ 63
      \<longrightarrow> sint c = (\<Sum>e\<leftarrow>filter (\<lambda>e. key e = k) events. sint (Count e)))"
proof -
  have look: "count_loop key events Map.empty k =
     (if k \<in> key ` set events
      then Some (word_of_int (\<Sum>e\<leftarrow>filter (\<lambda>e. key e = k) events. sint (Count e)))
      else None)"
    by (simp only: count_loop_lookup wrapped_sum)
  show ?thesis
  proof (intro conjI allI impI)
    show "count_loop key events Map.empty k =
     (if k \<in> key ` set events
      then Some (word_of_int (\<Sum>e\<leftarrow>filter (\<lambda>e. key e = k) events. sint (Count e)))
      else None)"
      by (rule look)
  next
    fix c
    assume a: "count_loop key events Map.empty k = Some c \<and>
        - (2 ^ 63) \<le> (\<Sum>e\<leftarrow>filter (\<lambda>e. key e = k) events. sint (Count e)) \<and>
        (\<Sum>e\<leftarrow>filter (\<lambda>e. key e = k) events. sint (Count e)) < 2 ^ 63"
    with look have "c = word_of_int (\<Sum>e\<leftarrow>filter (\<lambda>e. key e = k) events. sint (Count e))"
      by (simp split: if_splits)
    with a show "sint c = (\<Sum>e\<leftarrow>filter (\<lambda>e. key e = k) events. sint (Count e))"
      by (simp only: sint_int64_exact)
  qed
qed

text \<open>The counts 5 and 3 of \<open>block\<close> add up to 8, within the range.\<close>

theorem aggregation_wraps_witness:
  "count_loop (\<lambda>e. Action (Dimensions e))
     [\<lparr>Count = 5, Dimensions = \<lparr>Action = ''block'', Source = ''waf'', ClientCountryName = ''US''\<rparr>\<rparr>,
      \<lparr>Count = 3, Dimensions = \<lparr>Action = ''block'', Source = ''waf'', ClientCountryName = ''DE''\<rparr>\<rparr>,
      \<lparr>Count = 2, Dimensions = \<lparr>Action = ''allow'', Source = ''waf'', ClientCountryName = ''US''\<rparr>\<rparr>]
     Map.empty ''block'' = Some 8 \<and> sint (8 :: int64) = 5 + 3"
proof -
  let ?events = "[\<lparr>Count = 5, Dimensions = \<lparr>Action = ''block'', Source = ''waf'', ClientCountryName = ''US''\<rparr>\<rparr>,
      \<lparr>Count = 3, Dimensions = \<lparr>Action = ''block'', Source = ''waf'', ClientCountryName = ''DE''\<rparr>\<rparr>,
      \<lparr>Count = 2 :: int64, Dimensions = \<lparr>Action = ''allow'', Source = ''waf'', ClientCountryName = ''US''\<rparr>\<rparr>]"
  have run: "count_loop (\<lambda>e. Action (Dimensions e)) ?events Map.empty ''block'' = Some 8"
    by (simp add: add_assign_def index_or_zero_def)
  have total: "(\<Sum>e\<leftarrow>filter (\<lambda>e. Action (Dimensions e) = ''block'') ?events. sint (Count e)) = 5 + 3"
    by simp
  from aggregation_wraps [of "\<lambda>e. Action (Dimensions e)" ?events "''block''"] run total
  show ?thesis by simp
qed

text \<open>
  Two groups of the action \<open>block\<close> with the counts \<open>2 ^ 63 - 1\<close> and 1: the
  summary by action holds \<open>- 2 ^ 63\<close> for \<open>block\<close>. The sum wrapped, and the
  loop went on without an error.
\<close>

theorem overflow_wraps_silently:
  "map_option sint
     (actionCounts
        [\<lparr>Count = 9223372036854775807,
          Dimensions = \<lparr>Action = ''block'', Source = ''waf'', ClientCountryName = ''US''\<rparr>\<rparr>,
         \<lparr>Count = 1,
          Dimensions = \<lparr>Action = ''block'', Source = ''waf'', ClientCountryName = ''DE''\<rparr>\<rparr>]
        ''block'')
   = Some (- 9223372036854775808)"
  by (simp add: actionCounts_def add_assign_def index_or_zero_def)

section \<open>The sort of the countries\<close>


















text \<open>
  The sort is not stable. Ranged over as \<open>A\<close>, \<open>B\<close>, \<open>C\<close> with the counts 5, 5
  and 7, the slice is printed as \<open>C\<close>, \<open>B\<close>, \<open>A\<close>: the swap that brings \<open>C\<close> to
  the front puts \<open>A\<close> behind \<open>B\<close>.
\<close>

lemma sort_countries_not_stable:
  "sort_countries [\<lparr>country = ''A'', count' = 5\<rparr>, \<lparr>country = ''B'', count' = 5\<rparr>,
                   \<lparr>country = ''C'', count' = 7\<rparr>]
     = [\<lparr>country = ''C'', count' = 7\<rparr>, \<lparr>country = ''B'', count' = 5\<rparr>,
        \<lparr>country = ''A'', count' = 5\<rparr>]"
  by (simp add: sort_countries_def outer_loop.simps inner_loop.simps)




section \<open>Fetching the firewall events\<close>

lemma Query_Inr:
  assumes "Query js c ctx query vars debug net = (Inr resp, net')"
  shows "(\<exists>bodyBytes.
            script net (length (sent net)) = Do_response 200 (ReadAll_ok bodyBytes) \<and>
            Unmarshal_GraphQLResponse js bodyBytes = Some resp) \<and>
         (\<exists>req. sent net' = sent net @ [req] \<and>
            Body req = \<lparr>Query_text = query, Variables = vars\<rparr>)"
  using assms
  by (auto simp: Query_def Do_def Let_def json_Marshal_def
      split: option.splits http_outcome.splits read_result.splits if_splits)

text \<open>
  Claim C7, as the code has it. The query asks for at most 100 rows
  (\<^verbatim>\<open>limit: 100\<close>), and \<open>GetFirewallEvents\<close> returns the decoded rows and nothing
  else: a successful call has sent exactly one request, the one with the query text
  and the variables of the window, and its result is the decoded \<open>Data\<close> of the
  response, a value that holds the zones with their groups and no other field. No
  row count is compared with the limit, and no further page is requested.
\<close>

theorem GetFirewallEvents_returns_rows_only:
  assumes "GetFirewallEvents js c ctx zoneID since until debug net = (Inr result, net')"
  shows "(\<exists>bodyBytes resp.
            script net (length (sent net)) = Do_response 200 (ReadAll_ok bodyBytes) \<and>
            Unmarshal_GraphQLResponse js bodyBytes = Some resp \<and>
            Unmarshal_FirewallEventsResponse js (Data resp) = Some result) \<and>
         (\<exists>req. sent net' = sent net @ [req] \<and>
            Body req = \<lparr>Query_text = firewall_events_query,
                         Variables = firewall_events_vars zoneID since until\<rparr>) \<and>
         result = \<lparr>Viewer_Zones = Viewer_Zones result\<rparr>"
proof -
  let ?vars = "firewall_events_vars zoneID since until"
  obtain r net1 where q: "Query js c ctx firewall_events_query ?vars debug net = (r, net1)"
    by (cases "Query js c ctx firewall_events_query ?vars debug net") auto
  with assms obtain resp where r: "r = Inr resp" and net1: "net1 = net'"
    and dec: "Unmarshal_FirewallEventsResponse js (Data resp) = Some result"
    by (auto simp: GetFirewallEvents_def Let_def split: sum.splits option.splits)
  from Query_Inr [OF q [unfolded r net1]] dec show ?thesis
    by auto
qed

text \<open>
  A response of exactly 100 rows, every row the same group: the call returns the 100
  rows as they were decoded, after one request.
\<close>

theorem capped_result_not_flagged:
  "fst (GetFirewallEvents
     \<lparr>Unmarshal_GraphQLResponse =
        (\<lambda>b. if b = ''ok'' then Some \<lparr>Data = ''rows'', Errors = []\<rparr> else None),
      Unmarshal_FirewallEventsResponse =
        (\<lambda>b. if b = ''rows''
              then Some \<lparr>Viewer_Zones = [\<lparr>FirewallEventsAdaptiveGroups = replicate 100
                     \<lparr>Count = 1, Dimensions = \<lparr>Action = ''block'', Source = ''waf'',
                        ClientCountryName = ''US''\<rparr>\<rparr>\<rparr>]\<rparr>
              else None),
      MarshalIndent_events = (\<lambda>e. None)\<rparr>
     \<lparr>apiToken = ''t''\<rparr> Background ''zone'' 0 3600000000000 False
     \<lparr>script = (\<lambda>n. Do_response 200 (ReadAll_ok ''ok'')), sent = []\<rparr>)
   = Inr \<lparr>Viewer_Zones = [\<lparr>FirewallEventsAdaptiveGroups = replicate 100
            \<lparr>Count = 1, Dimensions = \<lparr>Action = ''block'', Source = ''waf'',
               ClientCountryName = ''US''\<rparr>\<rparr>\<rparr>]\<rparr> \<and>
   length (sent (snd (GetFirewallEvents
     \<lparr>Unmarshal_GraphQLResponse =
        (\<lambda>b. if b = ''ok'' then Some \<lparr>Data = ''rows'', Errors = []\<rparr> else None),
      Unmarshal_FirewallEventsResponse =
        (\<lambda>b. if b = ''rows''
              then Some \<lparr>Viewer_Zones = [\<lparr>FirewallEventsAdaptiveGroups = replicate 100
                     \<lparr>Count = 1, Dimensions = \<lparr>Action = ''block'', Source = ''waf'',
                        ClientCountryName = ''US''\<rparr>\<rparr>\<rparr>]\<rparr>
              else None),
      MarshalIndent_events = (\<lambda>e. None)\<rparr>
     \<lparr>apiToken = ''t''\<rparr> Background ''zone'' 0 3600000000000 False
     \<lparr>script = (\<lambda>n. Do_response 200 (ReadAll_ok ''ok'')), sent = []\<rparr>))) = 1"
  by (simp add: GetFirewallEvents_def Query_def Do_def json_Marshal_def
      firewall_events_vars_def)

text \<open>A response of one row, fetched with one request.\<close>

theorem GetFirewallEvents_returns_rows_only_witness:
  "GetFirewallEvents
     \<lparr>Unmarshal_GraphQLResponse =
        (\<lambda>b. if b = ''ok'' then Some \<lparr>Data = ''rows'', Errors = []\<rparr> else None),
      Unmarshal_FirewallEventsResponse =
        (\<lambda>b. if b = ''rows''
              then Some \<lparr>Viewer_Zones = [\<lparr>FirewallEventsAdaptiveGroups =
                     [\<lparr>Count = 1, Dimensions = \<lparr>Action = ''block'', Source = ''waf'',
                        ClientCountryName = ''US''\<rparr>\<rparr>]\<rparr>]\<rparr>
              else None),
      MarshalIndent_events = (\<lambda>e. None)\<rparr>
     \<lparr>apiToken = ''t''\<rparr> Background ''zone'' 0 3600000000000 False
     \<lparr>script = (\<lambda>n. Do_response 200 (ReadAll_ok ''ok'')), sent = []\<rparr>
   = (Inr \<lparr>Viewer_Zones = [\<lparr>FirewallEventsAdaptiveGroups =
            [\<lparr>Count = 1, Dimensions = \<lparr>Action = ''block'', Source = ''waf'',
               ClientCountryName = ''US''\<rparr>\<rparr>]\<rparr>]\<rparr>,
      \<lparr>script = (\<lambda>n. Do_response 200 (ReadAll_ok ''ok'')),
       sent = [\<lparr>Authorization = ''Bearer t'', Content_Type = ''application/json'',
                Body = \<lparr>Query_text = firewall_events_query,
                         Variables = [(''zoneTag'', VString ''zone''), (''since'', VTime 0),
                                      (''until'', VTime 3600)]\<rparr>\<rparr>]\<rparr>) \<and>
   (\<exists>req. [\<lparr>Authorization = ''Bearer t'', Content_Type = ''application/json'',
             Body = \<lparr>Query_text = firewall_events_query,
                      Variables = [(''zoneTag'', VString ''zone''), (''since'', VTime 0),
                                   (''until'', VTime 3600)]\<rparr>\<rparr>] = [] @ [req] \<and>
      Body req = \<lparr>Query_text = firewall_events_query,
                   Variables = firewall_events_vars ''zone'' 0 3600000000000\<rparr>)"
proof -
  let ?js = "\<lparr>Unmarshal_GraphQLResponse =
        (\<lambda>b. if b = ''ok'' then Some \<lparr>Data = ''rows'', Errors = []\<rparr> else None),
      Unmarshal_FirewallEventsResponse =
        (\<lambda>b. if b = ''rows''
              then Some \<lparr>Viewer_Zones = [\<lparr>FirewallEventsAdaptiveGroups =
                     [\<lparr>Count = 1 :: int64, Dimensions = \<lparr>Action = ''block'', Source = ''waf'',
                        ClientCountryName = ''US''\<rparr>\<rparr>]\<rparr>]\<rparr>
              else None),
      MarshalIndent_events = (\<lambda>e. None)\<rparr>"
  let ?net = "\<lparr>script = (\<lambda>n. Do_response 200 (ReadAll_ok ''ok'')), sent = []\<rparr>"
  have run: "GetFirewallEvents ?js \<lparr>apiToken = ''t''\<rparr> Background ''zone'' 0 3600000000000 False ?net
   = (Inr \<lparr>Viewer_Zones = [\<lparr>FirewallEventsAdaptiveGroups =
            [\<lparr>Count = 1, Dimensions = \<lparr>Action = ''block'', Source = ''waf'',
               ClientCountryName = ''US''\<rparr>\<rparr>]\<rparr>]\<rparr>,
      \<lparr>script = (\<lambda>n. Do_response 200 (ReadAll_ok ''ok'')),
       sent = [\<lparr>Authorization = ''Bearer t'', Content_Type = ''application/json'',
                Body = \<lparr>Query_text = firewall_events_query,
                         Variables = [(''zoneTag'', VString ''zone''), (''since'', VTime 0),
                                      (''until'', VTime 3600)]\<rparr>\<rparr>]\<rparr>)"
    by (simp add: GetFirewallEvents_def Query_def Do_def json_Marshal_def
        firewall_events_vars_def Format_RFC3339_def)
  from GetFirewallEvents_returns_rows_only [OF run] run show ?thesis
    by simp
qed







section \<open>The report of main\<close>

lemma main_fetched:
  assumes "CF_API_TOKEN env \<noteq> []" and "CF_ZONE_ID env \<noteq> []"
    and "fst (GetFirewallEvents (json env) (NewGraphQLClient (CF_API_TOKEN env)) Background
           (CF_ZONE_ID env) (Now env + (- 10) * Hour) (Now env) (DEBUG env = ''true'')
           (internet env)) = Inr result"
  shows "main env = print_results (json env) (range_countries env) result"
  using assms by (auto simp: main_def Let_def split: prod.splits)

text \<open>
  Claim C10. When the fetch has succeeded, \<open>main\<close> reports on the decoded response
  alone. If its list of zones is empty the run ends with the line about no zones,
  without a summary and with exit code 0. Otherwise the report is the one of the
  response cut down to its first zone: the number of groups, the summaries by action
  and by source and the top countries are those of the groups of the first zone,
  whatever further zones the response holds.
\<close>

theorem first_zone_only:
  "print_results js order \<lparr>Viewer_Zones = []\<rparr> = No_zones_found \<and>
   exit_code (print_results js order \<lparr>Viewer_Zones = []\<rparr>) = 0 \<and>
   print_results js order \<lparr>Viewer_Zones = zone # others\<rparr>
     = print_results js order \<lparr>Viewer_Zones = [zone]\<rparr> \<and>
   (\<forall>s. print_results js order \<lparr>Viewer_Zones = zone # others\<rparr> = Completed s \<longrightarrow>
      found s = length (FirewallEventsAdaptiveGroups zone) \<and>
      by_action s = actionCounts (FirewallEventsAdaptiveGroups zone) \<and>
      by_source s = sourceCounts (FirewallEventsAdaptiveGroups zone) \<and>
      top s = top_countries
                (append_countries (countryCounts (FirewallEventsAdaptiveGroups zone)) order)) \<and>
   (CF_API_TOKEN env \<noteq> [] \<and> CF_ZONE_ID env \<noteq> [] \<and>
    fst (GetFirewallEvents (json env) (NewGraphQLClient (CF_API_TOKEN env)) Background
           (CF_ZONE_ID env) (Now env + (- 10) * Hour) (Now env) (DEBUG env = ''true'')
           (internet env)) = Inr result
    \<longrightarrow> main env = print_results (json env) (range_countries env) result)"
proof (intro conjI allI impI)
  show "print_results js order \<lparr>Viewer_Zones = []\<rparr> = No_zones_found"
    by (simp add: print_results_def)
  then show "exit_code (print_results js order \<lparr>Viewer_Zones = []\<rparr>) = 0"
    by simp
  show "print_results js order \<lparr>Viewer_Zones = zone # others\<rparr>
      = print_results js order \<lparr>Viewer_Zones = [zone]\<rparr>"
    by (simp add: print_results_def)
next
  fix s
  assume "print_results js order \<lparr>Viewer_Zones = zone # others\<rparr> = Completed s"
  then have s: "\<exists>pretty. s = \<lparr>found = length (FirewallEventsAdaptiveGroups zone),
      prettyJSON = pretty,
      by_action = actionCounts (FirewallEventsAdaptiveGroups zone),
      by_source = sourceCounts (FirewallEventsAdaptiveGroups zone),
      top = top_countries
              (append_countries (countryCounts (FirewallEventsAdaptiveGroups zone)) order)\<rparr>"
    by (auto simp: print_results_def Let_def split: option.splits)
  from s show "found s = length (FirewallEventsAdaptiveGroups zone)" by auto
  from s show "by_action s = actionCounts (FirewallEventsAdaptiveGroups zone)" by auto
  from s show "by_source s = sourceCounts (FirewallEventsAdaptiveGroups zone)" by auto
  from s show "top s = top_countries
      (append_countries (countryCounts (FirewallEventsAdaptiveGroups zone)) order)" by auto
next
  assume "CF_API_TOKEN env \<noteq> [] \<and> CF_ZONE_ID env \<noteq> [] \<and>
    fst (GetFirewallEvents (json env) (NewGraphQLClient (CF_API_TOKEN env)) Background
           (CF_ZONE_ID env) (Now env + (- 10) * Hour) (Now env) (DEBUG env = ''true'')
           (internet env)) = Inr result"
  then show "main env = print_results (json env) (range_countries env) result"
    by (intro main_fetched) simp_all
qed
text \<open>
  A run whose response holds two zones: the report counts the two groups of the first
  zone, and the group of the second zone appears nowhere.
\<close>

theorem first_zone_only_witness:
  "main
     \<lparr>CF_API_TOKEN = ''t'', CF_ZONE_ID = ''z'', DEBUG = ''false'', Now = 36000000000000,
      json = \<lparr>Unmarshal_GraphQLResponse =
                 (\<lambda>b. if b = ''ok'' then Some \<lparr>Data = ''rows'', Errors = []\<rparr> else None),
               Unmarshal_FirewallEventsResponse =
                 (\<lambda>b. if b = ''rows''
                       then Some \<lparr>Viewer_Zones =
                         [\<lparr>FirewallEventsAdaptiveGroups =
                            [\<lparr>Count = 5, Dimensions = \<lparr>Action = ''block'', Source = ''waf'',
                               ClientCountryName = ''US''\<rparr>\<rparr>,
                             \<lparr>Count = 2, Dimensions = \<lparr>Action = ''allow'', Source = ''waf'',
                               ClientCountryName = ''US''\<rparr>\<rparr>]\<rparr>,
                          \<lparr>FirewallEventsAdaptiveGroups =
                            [\<lparr>Count = 9, Dimensions = \<lparr>Action = ''log'', Source = ''waf'',
                               ClientCountryName = ''FR''\<rparr>\<rparr>]\<rparr>]\<rparr>
                       else None),
               MarshalIndent_events = (\<lambda>e. Some ''json'')\<rparr>,
      internet = \<lparr>script = (\<lambda>n. Do_response 200 (ReadAll_ok ''ok'')), sent = []\<rparr>,
      range_countries = [''US'']\<rparr>
   = Completed
       \<lparr>found = 2, prettyJSON = ''json'',
        by_action = actionCounts
          [\<lparr>Count = 5, Dimensions = \<lparr>Action = ''block'', Source = ''waf'',
             ClientCountryName = ''US''\<rparr>\<rparr>,
           \<lparr>Count = 2, Dimensions = \<lparr>Action = ''allow'', Source = ''waf'',
             ClientCountryName = ''US''\<rparr>\<rparr>],
        by_source = sourceCounts
          [\<lparr>Count = 5, Dimensions = \<lparr>Action = ''block'', Source = ''waf'',
             ClientCountryName = ''US''\<rparr>\<rparr>,
           \<lparr>Count = 2, Dimensions = \<lparr>Action = ''allow'', Source = ''waf'',
             ClientCountryName = ''US''\<rparr>\<rparr>],
        top = [\<lparr>country = ''US'', count' = 7\<rparr>]\<rparr>"
proof -
  let ?first = "\<lparr>FirewallEventsAdaptiveGroups =
      [\<lparr>Count = 5 :: int64, Dimensions = \<lparr>Action = ''block'', Source = ''waf'',
         ClientCountryName = ''US''\<rparr>\<rparr>,
       \<lparr>Count = 2, Dimensions = \<lparr>Action = ''allow'', Source = ''waf'',
         ClientCountryName = ''US''\<rparr>\<rparr>]\<rparr>"
  let ?second = "\<lparr>FirewallEventsAdaptiveGroups =
      [\<lparr>Count = 9 :: int64, Dimensions = \<lparr>Action = ''log'', Source = ''waf'',
         ClientCountryName = ''FR''\<rparr>\<rparr>]\<rparr>"
  let ?js = "\<lparr>Unmarshal_GraphQLResponse =
                 (\<lambda>b. if b = ''ok'' then Some \<lparr>Data = ''rows'', Errors = []\<rparr> else None),
               Unmarshal_FirewallEventsResponse =
                 (\<lambda>b. if b = ''rows'' then Some \<lparr>Viewer_Zones = [?first, ?second]\<rparr> else None),
               MarshalIndent_events = (\<lambda>e. Some ''json'')\<rparr>"
  let ?env = "\<lparr>CF_API_TOKEN = ''t'', CF_ZONE_ID = ''z'', DEBUG = ''false'',
      Now = 36000000000000, json = ?js,
      internet = \<lparr>script = (\<lambda>n. Do_response 200 (ReadAll_ok ''ok'')), sent = []\<rparr>,
      range_countries = [''US'']\<rparr>"
  let ?s = "\<lparr>found = 2, prettyJSON = ''json'',
        by_action = actionCounts (FirewallEventsAdaptiveGroups ?first),
        by_source = sourceCounts (FirewallEventsAdaptiveGroups ?first),
        top = [\<lparr>country = ''US'', count' = 7\<rparr>]\<rparr>"
  have token: "CF_API_TOKEN ?env \<noteq> []" and zone: "CF_ZONE_ID ?env \<noteq> []"
    by simp_all
  have fetch: "fst (GetFirewallEvents (json ?env) (NewGraphQLClient (CF_API_TOKEN ?env))
      Background (CF_ZONE_ID ?env) (Now ?env + (- 10) * Hour) (Now ?env)
      (DEBUG ?env = ''true'') (internet ?env)) = Inr \<lparr>Viewer_Zones = [?first, ?second]\<rparr>"
    by (simp add: GetFirewallEvents_def Query_def Do_def json_Marshal_def
        firewall_events_vars_def NewGraphQLClient_def)
  have slice: "append_countries (countryCounts (FirewallEventsAdaptiveGroups ?first)) [''US'']
      = [\<lparr>country = ''US'', count' = 7\<rparr>]"
    by (simp add: countryCounts_def add_assign_def index_or_zero_def
        append_countries_def range_map_def)
  have sorted: "sort_countries [\<lparr>country = ''US'', count' = 7\<rparr>]
      = [\<lparr>country = ''US'', count' = 7\<rparr>]"
    by (simp add: sort_countries_def outer_loop.simps inner_loop.simps)
  have top: "top_countries
      (append_countries (countryCounts (FirewallEventsAdaptiveGroups ?first)) [''US''])
      = [\<lparr>country = ''US'', count' = 7\<rparr>]"
    by (simp only: slice) (simp add: top_countries_def sorted)
  have report: "print_results ?js [''US''] \<lparr>Viewer_Zones = [?first, ?second]\<rparr> = Completed ?s"
    using top by (simp add: print_results_def Let_def)
  note first = first_zone_only [of ?js "[''US'']" ?first "[?second]" ?env
      "\<lparr>Viewer_Zones = [?first, ?second]\<rparr>"]
  from first report have "found ?s = length (FirewallEventsAdaptiveGroups ?first)"
    by blast
  moreover from first token zone fetch
  have "main ?env = print_results (json ?env) (range_countries ?env)
      \<lparr>Viewer_Zones = [?first, ?second]\<rparr>"
    by blast
  ultimately show ?thesis using report by simp
qed

section \<open>Checkpoints and windows\<close>









end
